theory Spec2Isabelle
  imports Main "HOL-Library.Word" "HOL-Library.AList"
begin

section \<open>Data model of the auth subsystem\<close>

text \<open>
  The package \<open>pkg/auth\<close> is wired together in \<open>cell.go\<close>, the file this development
  covers. What \<open>cell.go\<close> names but does not define is modelled from the spec.

  Modelled from the spec: \<open>authKey\<close> and the map value (declared outside \<open>cell.go\<close>). The
  key of one cached authentication decision is the triple of local identity, remote
  identity and remote node; the value is the absolute expiration time. Identities are
  32-bit, node ids 16-bit, as in the persisted map; timestamps are natural numbers (an
  abstract clock).
\<close>

record authKey =
  localIdentity :: "32 word"
  remoteIdentity :: "32 word"
  remoteNodeID :: "16 word"

record authMapValue =
  expiration :: nat

text \<open>
  Modelled from the spec: the auth types (declared outside \<open>cell.go\<close>), one for each
  handler variant the spec lists: null, always-fail, mutual-certificate.
\<close>

datatype authType = AuthTypeNull | AuthTypeAlwaysFail | AuthTypeMutual

text \<open>
  Modelled from the spec: \<open>signalAuthKey\<close> (declared outside \<open>cell.go\<close>), the unit carried
  on the signal channel: the key fields plus the required auth type.
\<close>

record signalAuthKey =
  LocalIdentity :: "32 word"
  RemoteIdentity :: "32 word"
  RemoteNodeID :: "16 word"
  AuthType :: authType

definition signalKey :: "signalAuthKey \<Rightarrow> authKey" where
  "signalKey s = \<lparr>localIdentity = LocalIdentity s, remoteIdentity = RemoteIdentity s,
                  remoteNodeID = RemoteNodeID s\<rparr>"

text \<open>
  Errors are values. \<open>Wrapped msg e\<close> is Go's \<open>fmt.Errorf("msg: %w", e)\<close>; \<open>Panic\<close> is a
  run-time panic or a fatal error of the runtime: it is never wrapped and ends the call
  it occurs in.
\<close>

datatype error =
    StoreError string
  | AuthError string
  | UnknownAuthType authType
  | DuplicateAuthType authType
  | Wrapped string error
  | Panic string

section \<open>AuthMapStore\<close>

text \<open>
  Modelled from the spec: the persisted map (\<open>authmap.Map\<close> and the writer built by
  \<open>newAuthMapWriter\<close>) is defined outside \<open>cell.go\<close>. The spec gives its contract:
  \<open>update(key, value)\<close> and \<open>delete(key)\<close> return a result, \<open>all()\<close> enumerates the
  entries; I/O or capacity errors are propagated to the caller and a failed operation does
  not take effect; deleting an already-deleted key is a no-op, not an error.

  The entries are an association list read through \<open>map_of\<close>. Which operations the
  environment lets fail is part of the store value: \<open>updateFault\<close>, \<open>deleteFault\<close> and
  \<open>allFault\<close> give, for each operation, the error it reports (\<open>None\<close>: it succeeds).
  The theorems hold for every store, so for every choice of failing operations.
\<close>

record authMapStore =
  entries :: "(authKey \<times> authMapValue) list"
  updateFault :: "authKey \<Rightarrow> error option"
  deleteFault :: "authKey \<Rightarrow> error option"
  allFault :: "error option"

text \<open>
  Modelled from the spec: \<open>AuthMapStore.update\<close>. It reports the environment's error and
  has no effect, or writes the entry.
\<close>

definition AuthMapStore_update ::
  "authKey \<Rightarrow> authMapValue \<Rightarrow> authMapStore \<Rightarrow> error + authMapStore" where
  "AuthMapStore_update k v st =
     (case updateFault st k of
        Some e \<Rightarrow> Inl e
      | None \<Rightarrow> Inr (st\<lparr>entries := AList.update k v (entries st)\<rparr>))"

text \<open>
  Modelled from the spec: \<open>AuthMapStore.delete\<close>. It reports the environment's error and
  has no effect, or removes the key; removing an absent key changes nothing and is no
  error.
\<close>

definition AuthMapStore_delete :: "authKey \<Rightarrow> authMapStore \<Rightarrow> error + authMapStore" where
  "AuthMapStore_delete k st =
     (case deleteFault st k of
        Some e \<Rightarrow> Inl e
      | None \<Rightarrow> Inr (st\<lparr>entries := AList.delete k (entries st)\<rparr>))"

text \<open>
  Modelled from the spec: \<open>AuthMapStore.all\<close>, the sequence of the entries, one for each
  key.
\<close>

definition AuthMapStore_all :: "authMapStore \<Rightarrow> error + (authKey \<times> authMapValue) list" where
  "AuthMapStore_all st =
     (case allFault st of
        Some e \<Rightarrow> Inl e
      | None \<Rightarrow> Inr (AList.clearjunk (entries st)))"

text \<open>
  The entry the datapath finds in the store for a key.
\<close>

definition store_get :: "authMapStore \<Rightarrow> authKey \<Rightarrow> authMapValue option" where
  "store_get st k = map_of (entries st) k"

section \<open>AuthMapCache\<close>

text \<open>
  Modelled from the spec: \<open>newAuthMapCache\<close> and the methods of the cache are defined
  outside \<open>cell.go\<close>. The cache is an in-memory mirror of the store with write-through
  semantics. \<open>set\<close> writes to the store first and updates the mirror only on success;
  \<open>delete\<close> deletes from the store first and then removes from the mirror; \<open>get\<close> reads
  the mirror only; \<open>restoreCache\<close> reads all entries of the store and populates the
  mirror; \<open>entriesMatching\<close> enumerates a snapshot of the mirror.

  Every mutating operation returns the error it reports together with the cache after the
  call, so that what a failed call leaves behind is a fact to prove, not a convention.
\<close>

record authMapCache =
  mirror :: "(authKey \<times> authMapValue) list"
  store :: authMapStore

text \<open>
  Modelled from the spec: \<open>newAuthMapCache\<close>. The mirror starts empty; it is populated by
  \<open>restoreCache\<close>.
\<close>

definition newAuthMapCache :: "authMapStore \<Rightarrow> authMapCache" where
  "newAuthMapCache st = \<lparr>mirror = [], store = st\<rparr>"

text \<open>
  Modelled from the spec: \<open>AuthMapCache.get\<close>, a lookup in the mirror only.
\<close>

definition AuthMapCache_get :: "authKey \<Rightarrow> authMapCache \<Rightarrow> authMapValue option" where
  "AuthMapCache_get k c = map_of (mirror c) k"

text \<open>
  Modelled from the spec: \<open>AuthMapCache.set\<close>. The store is written first; the mirror is
  updated only on success; on failure the store's error is returned.
\<close>

definition AuthMapCache_set ::
  "authKey \<Rightarrow> authMapValue \<Rightarrow> authMapCache \<Rightarrow> error option \<times> authMapCache" where
  "AuthMapCache_set k v c =
     (case AuthMapStore_update k v (store c) of
        Inl e \<Rightarrow> (Some e, c)
      | Inr st' \<Rightarrow> (None, c\<lparr>store := st', mirror := AList.update k v (mirror c)\<rparr>))"

text \<open>
  Modelled from the spec: \<open>AuthMapCache.delete\<close>, symmetric to \<open>set\<close>: the store first,
  then the mirror.
\<close>

definition AuthMapCache_delete :: "authKey \<Rightarrow> authMapCache \<Rightarrow> error option \<times> authMapCache" where
  "AuthMapCache_delete k c =
     (case AuthMapStore_delete k (store c) of
        Inl e \<Rightarrow> (Some e, c)
      | Inr st' \<Rightarrow> (None, c\<lparr>store := st', mirror := AList.delete k (mirror c)\<rparr>))"

text \<open>
  Modelled from the spec: \<open>restoreCache\<close>. It reads all entries of the store and puts
  them into the mirror; when the store cannot be read it returns the error.
\<close>

definition restoreCache :: "authMapCache \<Rightarrow> error option \<times> authMapCache" where
  "restoreCache c =
     (case AuthMapStore_all (store c) of
        Inl e \<Rightarrow> (Some e, c)
      | Inr kvs \<Rightarrow> (None, c\<lparr>mirror := fold (\<lambda>(k, v). AList.update k v) kvs (mirror c)\<rparr>))"

text \<open>
  Modelled from the spec: \<open>entriesMatching\<close>, the entries of a snapshot of the mirror (one
  for each key) that satisfy the predicate.
\<close>

definition entriesMatching ::
  "(authKey \<Rightarrow> authMapValue \<Rightarrow> bool) \<Rightarrow> authMapCache \<Rightarrow> (authKey \<times> authMapValue) list" where
  "entriesMatching p c = filter (\<lambda>(k, v). p k v) (AList.clearjunk (mirror c))"

text \<open>The mirror agrees with the store on every key.\<close>

definition mirrorInSync :: "authMapCache \<Rightarrow> bool" where
  "mirrorInSync c \<longleftrightarrow> (\<forall>k. AuthMapCache_get k c = store_get (store c) k)"

section \<open>Authentication handlers\<close>

text \<open>
  Modelled from the spec: the handler implementations (\<open>newMutualAuthHandler\<close>,
  \<open>newAlwaysFailAuthHandler\<close>) are defined outside \<open>cell.go\<close>; \<open>cell.go\<close> only names
  their constructors and calls \<open>subscribeToRotatedIdentities\<close>. The spec gives the contract
  \<open>authenticate(localIdentity, remoteIdentity, remoteNodeID, remoteNodeIP)\<close> returning an
  expiration or an error, and three variants: null (always a far-future expiration),
  always-fail (always an error) and mutual-certificate (a real handshake carried out by an
  external collaborator, with a channel of rotated identities).

  A handler is a record of its methods. \<open>authenticate\<close> takes the current time and the
  request and returns a value only: a handler has no access to the cache.
\<close>

record authRequest =
  reqKey :: authKey
  remoteNodeIP :: string

datatype chan = Chan (chanName: string) (chanCap: nat)

record authHandler =
  authenticate :: "nat \<Rightarrow> authRequest \<Rightarrow> error + nat"
  authType :: authType
  subscribeToRotatedIdentities :: "chan option"

text \<open>
  Modelled from the spec: the null variant, which always returns a far-future expiration.
  The far future is the largest timestamp of the persisted map's 64-bit expiration field.
\<close>

definition farFuture :: nat where
  "farFuture = 2 ^ 64 - 1"

definition nullAuthHandler :: authHandler where
  "nullAuthHandler =
     \<lparr>authenticate = (\<lambda>now req. Inr farFuture),
      authType = AuthTypeNull,
      subscribeToRotatedIdentities = None\<rparr>"

text \<open>
  Modelled from the spec: the always-fail variant (\<open>newAlwaysFailAuthHandler\<close>), which
  always returns an error.
\<close>

definition newAlwaysFailAuthHandler :: authHandler where
  "newAlwaysFailAuthHandler =
     \<lparr>authenticate = (\<lambda>now req. Inl (AuthError ''authenticate failed by always-fail handler'')),
      authType = AuthTypeAlwaysFail,
      subscribeToRotatedIdentities = None\<rparr>"

text \<open>
  Modelled from the spec: the mutual-certificate variant (\<open>newMutualAuthHandler\<close>). Its
  handshake is the external collaborator's: it is the parameter \<open>handshake\<close>; \<open>rotated\<close>
  is its channel of rotated identities.
\<close>

definition newMutualAuthHandler :: "(nat \<Rightarrow> authRequest \<Rightarrow> error + nat) \<Rightarrow> chan \<Rightarrow> authHandler" where
  "newMutualAuthHandler handshake rotated =
     \<lparr>authenticate = handshake,
      authType = AuthTypeMutual,
      subscribeToRotatedIdentities = Some rotated\<rparr>"

section \<open>AuthManager\<close>

text \<open>
  Modelled from the spec: \<open>newAuthManager\<close>, \<open>handleAuthRequest\<close> and
  \<open>handleCertificateRotationEvent\<close> are defined outside \<open>cell.go\<close>. The manager holds
  the handlers keyed by auth type, the cache (shared with the garbage collector: it is
  this field the collector's functions are applied to) and the node address lookup it was
  constructed with. \<open>authCalls\<close> records every invocation of a handler's \<open>authenticate\<close>,
  in order.
\<close>

record authManager =
  authHandlers :: "authType \<Rightarrow> authHandler option"
  authmap :: authMapCache
  ipCache :: "16 word \<Rightarrow> string"
  authCalls :: "(authType \<times> authRequest) list"

text \<open>
  Modelled from the spec: \<open>newAuthManager\<close>. The source shows that construction can fail
  (its error is wrapped by \<open>newManager\<close>); the spec keys the handlers by auth type, so two
  handlers of one type are the failure. A nil handler is skipped.
\<close>

fun collectHandlers ::
  "authHandler option list \<Rightarrow> (authType \<Rightarrow> authHandler option) \<Rightarrow> error + (authType \<Rightarrow> authHandler option)" where
  "collectHandlers [] hm = Inr hm"
| "collectHandlers (None # ahs) hm = collectHandlers ahs hm"
| "collectHandlers (Some ah # ahs) hm =
     (case hm (authType ah) of
        Some _ \<Rightarrow> Inl (DuplicateAuthType (authType ah))
      | None \<Rightarrow> collectHandlers ahs (hm(authType ah \<mapsto> ah)))"

definition newAuthManager ::
  "authHandler option list \<Rightarrow> authMapCache \<Rightarrow> (16 word \<Rightarrow> string) \<Rightarrow> error + authManager" where
  "newAuthManager ahs mapCache ipc =
     (case collectHandlers ahs Map.empty of
        Inl e \<Rightarrow> Inl e
      | Inr hm \<Rightarrow> Inr \<lparr>authHandlers = hm, authmap = mapCache, ipCache = ipc, authCalls = []\<rparr>)"

text \<open>
  Modelled from the spec: an entry is live (unexpired) at time \<open>now\<close> when its expiration
  is after \<open>now\<close>; an entry whose expiration has passed is treated as absent.
\<close>

definition live :: "nat \<Rightarrow> authMapValue option \<Rightarrow> bool" where
  "live now e = (case e of None \<Rightarrow> False | Some v \<Rightarrow> now < expiration v)"

text \<open>
  Modelled from the spec: \<open>handleAuthRequest\<close>. Look up the cache; with a live entry do
  nothing. Otherwise resolve the handler for the signal's auth type and invoke
  \<open>authenticate\<close>; on success call \<open>AuthMapCache.set\<close>; on failure report the error and
  write nothing. A signal whose auth type has no handler is reported as an error.
\<close>

definition handleAuthRequest ::
  "nat \<Rightarrow> signalAuthKey \<Rightarrow> authManager \<Rightarrow> error option \<times> authManager" where
  "handleAuthRequest now sig m =
     (let k = signalKey sig in
      if live now (AuthMapCache_get k (authmap m)) then (None, m)
      else
        (case authHandlers m (AuthType sig) of
           None \<Rightarrow> (Some (UnknownAuthType (AuthType sig)), m)
         | Some h \<Rightarrow>
             (let req = \<lparr>reqKey = k, remoteNodeIP = ipCache m (remoteNodeID k)\<rparr>;
                  m1 = m\<lparr>authCalls := authCalls m @ [(AuthType sig, req)]\<rparr>
              in case authenticate h now req of
                   Inl e \<Rightarrow> (Some e, m1)
                 | Inr exp \<Rightarrow>
                     (case AuthMapCache_set k \<lparr>expiration = exp\<rparr> (authmap m1) of
                        (err, c') \<Rightarrow> (err, m1\<lparr>authmap := c'\<rparr>)))))"

text \<open>
  Modelled from the spec: the effect shared by rotation handling and the three
  garbage-collection triggers: delete every entry of a snapshot of the mirror that matches
  a predicate, through the cache's \<open>delete\<close>. A failed deletion did not take effect; it
  is reported (the error is collected) and the next entry is tried.
\<close>

fun deleteEntries ::
  "(authKey \<times> authMapValue) list \<Rightarrow> authMapCache \<Rightarrow> error list \<times> authMapCache" where
  "deleteEntries [] c = ([], c)"
| "deleteEntries ((k, v) # kvs) c =
     (case AuthMapCache_delete k c of
        (None, c') \<Rightarrow> deleteEntries kvs c'
      | (Some e, c') \<Rightarrow> (case deleteEntries kvs c' of (es, c'') \<Rightarrow> (e # es, c'')))"

definition deleteMatching ::
  "(authKey \<Rightarrow> authMapValue \<Rightarrow> bool) \<Rightarrow> authMapCache \<Rightarrow> error list \<times> authMapCache" where
  "deleteMatching p c = deleteEntries (entriesMatching p c) c"



section \<open>AuthMapGarbageCollector\<close>

text \<open>
  Modelled from the spec: \<open>newAuthMapGC\<close> and the collector's methods are defined
  outside \<open>cell.go\<close>. Three triggers share one effect. The two lifecycle feeds deliver
  resource events; the collector reacts to deletions only.
\<close>

datatype 'a event = Sync | Upsert 'a | Delete 'a

text \<open>
  Modelled from the spec: \<open>CleanupExpiredEntries\<close>, the sweep at time \<open>now\<close>: delete every
  cached entry whose expiration is at or before \<open>now\<close>.
\<close>

definition CleanupExpiredEntries :: "nat \<Rightarrow> authMapCache \<Rightarrow> error list \<times> authMapCache" where
  "CleanupExpiredEntries now c = deleteMatching (\<lambda>k v. expiration v \<le> now) c"



section \<open>The auth cell: configuration\<close>

text \<open>
  From here on the definitions follow \<open>pkg/auth/cell.go\<close>. Go's \<open>int\<close> and
  \<open>time.Duration\<close> (nanoseconds) are integers; the only arithmetic on them is the
  constant \<open>15 * time.Minute\<close>.
\<close>

record config =
  MeshAuthQueueSize :: int
  MeshAuthExpiredGCInterval :: int

definition time_Second :: int where
  "time_Second = 1000000000"

definition time_Minute :: int where
  "time_Minute = 60 * time_Second"

text \<open>The value given to \<open>cell.Config\<close> in \<open>Cell\<close>: the defaults of the two options.\<close>

definition Cell_config :: config where
  "Cell_config = \<lparr>MeshAuthQueueSize = 1024, MeshAuthExpiredGCInterval = 15 * time_Minute\<rparr>"





text \<open>
  The handler constructors given to \<open>cell.ProvidePrivate\<close> in \<open>Cell\<close>, in the order of
  the source: \<open>newMutualAuthHandler\<close>, then \<open>newAlwaysFailAuthHandler\<close>.
\<close>

definition Cell_AuthHandlers ::
  "(nat \<Rightarrow> authRequest \<Rightarrow> error + nat) \<Rightarrow> chan \<Rightarrow> authHandler option list" where
  "Cell_AuthHandlers handshake rotated =
     [Some (newMutualAuthHandler handshake rotated), Some newAlwaysFailAuthHandler]"

section \<open>The auth cell: jobs\<close>

text \<open>
  A job names the method it runs and the stream or interval that triggers it:
  \<open>job.Observer(name, fn, stream)\<close> and \<open>job.Timer(name, fn, interval)\<close>.
\<close>

datatype jobFunc =
    mgr_handleAuthRequest
  | mgr_handleCertificateRotationEvent
  | mapGC_handleCiliumIdentityEvent
  | mapGC_handleCiliumNodeEvent
  | mapGC_CleanupExpiredEntries

datatype resource = Resource string

datatype stream = FromChannel chan | FromResource resource

datatype job = Observer string jobFunc stream | Timer string jobFunc int

text \<open>
  Go's \<open>make(chan T, n)\<close> with a size known only at run time is the runtime's
  \<open>makechan\<close>. It multiplies the element size by the size as unsigned machine words and
  panics with "makechan: size out of range" when the product overflows, when it exceeds
  \<open>maxAlloc - hchanSize\<close>, or when the size is negative. Otherwise it allocates the
  buffer; when the allocator cannot provide it, the runtime ends the process ("out of
  memory"). Otherwise the channel has capacity \<open>n\<close>.

  The word size, \<open>maxAlloc\<close> and \<open>hchanSize\<close> are constants of the Go runtime for
  the platform, and the element type \<open>signalAuthKey\<close> is declared outside \<open>cell.go\<close>:
  they are parameters, together with the allocator's answer (\<open>allocFails\<close>, on the
  number of bytes of the buffer).
\<close>

record goRuntime =
  uintptrBits :: nat
  maxAlloc :: nat
  hchanSize :: nat
  signalAuthKeySize :: nat
  allocFails :: "nat \<Rightarrow> bool"

definition sizeOutOfRange :: "goRuntime \<Rightarrow> int \<Rightarrow> bool" where
  "sizeOutOfRange rt n \<longleftrightarrow>
     2 ^ uintptrBits rt \<le> int (signalAuthKeySize rt) * n
     \<or> int (maxAlloc rt) - int (hchanSize rt) < int (signalAuthKeySize rt) * n
     \<or> n < 0"

definition make_chan :: "goRuntime \<Rightarrow> string \<Rightarrow> int \<Rightarrow> error + chan" where
  "make_chan rt name n =
     (if sizeOutOfRange rt n then Inl (Panic ''makechan: size out of range'')
      else if allocFails rt (signalAuthKeySize rt * nat n)
      then Inl (Panic ''runtime: out of memory'')
      else Inr (Chan name (nat n)))"

text \<open>
  Modelled from the spec: the signal manager (\<open>pkg/signal\<close>, outside \<open>cell.go\<close>),
  with which the manager registers its channel once. \<open>RegisterHandler\<close> records the
  channel for a signal type, or reports the error \<open>registerFault\<close>.
\<close>

datatype signalType = SignalAuthRequired

record signalManager =
  registered :: "(signalType \<times> chan) list"
  registerFault :: "error option"

definition RegisterHandler :: "chan \<Rightarrow> signalType \<Rightarrow> signalManager \<Rightarrow> error + signalManager" where
  "RegisterHandler ch sg sm =
     (case registerFault sm of
        Some e \<Rightarrow> Inl e
      | None \<Rightarrow> Inr (sm\<lparr>registered := registered sm @ [(sg, ch)]\<rparr>))"

fun registerReAuthenticationJob :: "job list \<Rightarrow> authHandler option list \<Rightarrow> job list" where
  "registerReAuthenticationJob jobGroup [] = jobGroup"
| "registerReAuthenticationJob jobGroup (None # ahs) =
     registerReAuthenticationJob jobGroup ahs"
| "registerReAuthenticationJob jobGroup (Some ah # ahs) =
     (case subscribeToRotatedIdentities ah of
        None \<Rightarrow> registerReAuthenticationJob jobGroup ahs
      | Some ch \<Rightarrow>
          registerReAuthenticationJob
            (jobGroup @ [Observer ''auth re-authentication'' mgr_handleCertificateRotationEvent
                           (FromChannel ch)])
            ahs)"

definition registerSignalAuthenticationJob ::
  "goRuntime \<Rightarrow> job list \<Rightarrow> signalManager \<Rightarrow> config \<Rightarrow> error + (job list \<times> signalManager)" where
  "registerSignalAuthenticationJob rt jobGroup sm config =
     (case make_chan rt ''signalChannel'' (MeshAuthQueueSize config) of
        Inl p \<Rightarrow> Inl p
      | Inr signalChannel \<Rightarrow>
          (case RegisterHandler signalChannel SignalAuthRequired sm of
             Inl err \<Rightarrow>
               Inl (Wrapped
                 ''failed to set up signal channel for datapath authentication required events''
                 err)
           | Inr sm' \<Rightarrow>
               Inr (jobGroup @ [Observer ''auth request processing'' mgr_handleAuthRequest
                                  (FromChannel signalChannel)], sm')))"

section \<open>The auth cell: construction and start\<close>

text \<open>
  A start hook is the closure of \<open>newManager\<close> that restores the cache, the job group
  (starting it starts its jobs), or a hook of another component, which here is only its
  outcome. Of the parameters of \<open>newManager\<close>, the logger and the job registry have no
  part in what the cell does to the cache and are left out.
\<close>

datatype hook = OnStart_restoreCache | JobGroup "job list" | Foreign "error option"

record authManagerParams =
  Lifecycle :: "hook list"
  Config :: config
  IPCache :: "16 word \<Rightarrow> string"
  AuthHandlers :: "authHandler option list"
  AuthMap :: authMapStore
  SignalManager :: signalManager
  CiliumIdentities :: "resource option"
  CiliumNodes :: "resource option"

definition registerGCJobs :: "job list \<Rightarrow> authManagerParams \<Rightarrow> job list" where
  "registerGCJobs jobGroup params =
     (let jobGroup1 =
            (case CiliumIdentities params of
               Some r \<Rightarrow> jobGroup @ [Observer ''auth identities gc''
                                         mapGC_handleCiliumIdentityEvent (FromResource r)]
             | None \<Rightarrow> jobGroup);
          jobGroup2 =
            (case CiliumNodes params of
               Some r \<Rightarrow> jobGroup1 @ [Observer ''auth nodes gc''
                                          mapGC_handleCiliumNodeEvent (FromResource r)]
             | None \<Rightarrow> jobGroup1)
      in jobGroup2 @ [Timer ''auth expiration gc'' mapGC_CleanupExpiredEntries
                        (MeshAuthExpiredGCInterval (Config params))])"

text \<open>
  What \<open>newManager\<close> leaves behind besides its error: the lifecycle with the hooks it
  appended, the signal manager, and the manager it built. Its first argument is the Go
  runtime the process runs on, on which \<open>make\<close> depends.
\<close>

record wiring =
  lifecycle :: "hook list"
  signals :: signalManager
  manager :: "authManager option"

definition newManager :: "goRuntime \<Rightarrow> authManagerParams \<Rightarrow> error option \<times> wiring" where
  "newManager rt params =
     (let mapWriter = AuthMap params;
          mapCache = newAuthMapCache mapWriter;
          lc = Lifecycle params @ [OnStart_restoreCache];
          jobGroup = []
      in case newAuthManager (AuthHandlers params) mapCache (IPCache params) of
           Inl err \<Rightarrow>
             (Some (Wrapped ''failed to create auth manager'' err),
              \<lparr>lifecycle = lc, signals = SignalManager params, manager = None\<rparr>)
         | Inr mgr \<Rightarrow>
             (case registerSignalAuthenticationJob rt jobGroup (SignalManager params) (Config params) of
                Inl (Panic p) \<Rightarrow>
                  (Some (Panic p),
                   \<lparr>lifecycle = lc, signals = SignalManager params, manager = Some mgr\<rparr>)
              | Inl err \<Rightarrow>
                  (Some (Wrapped ''failed to register signal authentication job'' err),
                   \<lparr>lifecycle = lc, signals = SignalManager params, manager = Some mgr\<rparr>)
              | Inr (jobGroup1, sm) \<Rightarrow>
                  (let jobGroup2 = registerReAuthenticationJob jobGroup1 (AuthHandlers params);
                       jobGroup3 = registerGCJobs jobGroup2 params
                   in (None,
                       \<lparr>lifecycle = lc @ [JobGroup jobGroup3], signals = sm,
                        manager = Some mgr\<rparr>))))"

text \<open>
  Modelled from the spec: the lifecycle (\<open>pkg/hive\<close>) and the job group (\<open>pkg/hive/job\<close>)
  are defined outside \<open>cell.go\<close>. Start runs the hooks in the order they were
  appended and stops at the first one that fails, returning its error; a job consumes its
  stream only once its group has been started. The state of the running subsystem is the
  manager (with the shared cache), whether the cache has been restored, and the jobs that
  run.
\<close>

record authSystem =
  sysManager :: authManager
  cacheRestored :: bool
  running :: "job list"

fun runHook :: "hook \<Rightarrow> authSystem \<Rightarrow> error option \<times> authSystem" where
  "runHook OnStart_restoreCache sys =
     (case restoreCache (authmap (sysManager sys)) of
        (Some err, c) \<Rightarrow>
          (Some (Wrapped ''failed to restore auth map cache'' err),
           sys\<lparr>sysManager := (sysManager sys)\<lparr>authmap := c\<rparr>\<rparr>)
      | (None, c) \<Rightarrow>
          (None, sys\<lparr>sysManager := (sysManager sys)\<lparr>authmap := c\<rparr>, cacheRestored := True\<rparr>))"
| "runHook (JobGroup jobs) sys = (None, sys\<lparr>running := running sys @ jobs\<rparr>)"
| "runHook (Foreign r) sys = (r, sys)"

fun Lifecycle_Start :: "hook list \<Rightarrow> authSystem \<Rightarrow> error option \<times> authSystem" where
  "Lifecycle_Start [] sys = (None, sys)"
| "Lifecycle_Start (h # hs) sys =
     (case runHook h sys of
        (Some err, sys') \<Rightarrow> (Some err, sys')
      | (None, sys') \<Rightarrow> Lifecycle_Start hs sys')"

text \<open>
  The subsystem before the start: nothing restored, no job running.
\<close>

definition initialSystem :: "authManager \<Rightarrow> authSystem" where
  "initialSystem mgr = \<lparr>sysManager = mgr, cacheRestored = False, running = []\<rparr>"

text \<open>
  The jobs that run \<open>handleAuthRequest\<close> on a channel.
\<close>

definition consumesSignals :: "job \<Rightarrow> bool" where
  "consumesSignals j =
     (case j of Observer _ mgr_handleAuthRequest (FromChannel _) \<Rightarrow> True | _ \<Rightarrow> False)"

text \<open>
  Modelled from the spec: the consumer task that drains the signal channel (\<open>job.Observer\<close>,
  outside \<open>cell.go\<close>). A signal is served when a running job consumes the signal
  channel; otherwise it is not processed at all (\<open>None\<close>).
\<close>

definition serveSignal ::
  "nat \<Rightarrow> signalAuthKey \<Rightarrow> authSystem \<Rightarrow> (error option \<times> authSystem) option" where
  "serveSignal now sig sys =
     (if list_ex consumesSignals (running sys)
      then Some (case handleAuthRequest now sig (sysManager sys) of
                   (err, m) \<Rightarrow> (err, sys\<lparr>sysManager := m\<rparr>))
      else None)"

text \<open>
  The hooks of other components.
\<close>

definition foreignHook :: "hook \<Rightarrow> bool" where
  "foreignHook h = (case h of Foreign _ \<Rightarrow> True | _ \<Rightarrow> False)"

text \<open>
  The method a job runs.
\<close>

definition jobFunc_of :: "job \<Rightarrow> jobFunc" where
  "jobFunc_of j = (case j of Observer _ f _ \<Rightarrow> f | Timer _ f _ \<Rightarrow> f)"

section \<open>Example values\<close>

text \<open>
  The values of the end-to-end scenario: the key \<open>(local = 100, remote = 200, node = 7)\<close>
  with auth type mutual, a handshake that succeeds with expiration \<open>now + 600\<close>, a store
  whose operations succeed and a store whose operations all fail.
\<close>

definition exampleKey :: authKey where
  "exampleKey = \<lparr>localIdentity = 100, remoteIdentity = 200, remoteNodeID = 7\<rparr>"

definition exampleSignal :: signalAuthKey where
  "exampleSignal =
     \<lparr>LocalIdentity = 100, RemoteIdentity = 200, RemoteNodeID = 7, AuthType = AuthTypeMutual\<rparr>"

definition exampleStore :: authMapStore where
  "exampleStore =
     \<lparr>entries = [], updateFault = (\<lambda>k. None), deleteFault = (\<lambda>k. None), allFault = None\<rparr>"

definition failingStore :: authMapStore where
  "failingStore =
     \<lparr>entries = [(exampleKey, \<lparr>expiration = 50\<rparr>)],
      updateFault = (\<lambda>k. Some (StoreError ''update failed'')),
      deleteFault = (\<lambda>k. Some (StoreError ''delete failed'')),
      allFault = Some (StoreError ''iteration failed'')\<rparr>"


text \<open>
  The runtime constants of Go on 64-bit Linux, a 12-byte \<open>signalAuthKey\<close>, and an
  allocator that never fails.
\<close>

definition exampleRuntime :: goRuntime where
  "exampleRuntime =
     \<lparr>uintptrBits = 64, maxAlloc = 2 ^ 48, hchanSize = 96, signalAuthKeySize = 12,
      allocFails = (\<lambda>n. False)\<rparr>"

definition exampleHandshake :: "nat \<Rightarrow> authRequest \<Rightarrow> error + nat" where
  "exampleHandshake now req = Inr (now + 600)"

definition exampleManager :: authManager where
  "exampleManager =
     \<lparr>authHandlers =
        [AuthTypeMutual \<mapsto> newMutualAuthHandler exampleHandshake (Chan ''rotated'' 0),
         AuthTypeAlwaysFail \<mapsto> newAlwaysFailAuthHandler],
      authmap = newAuthMapCache exampleStore,
      ipCache = (\<lambda>n. ''10.0.0.7''),
      authCalls = []\<rparr>"

definition exampleParams :: authManagerParams where
  "exampleParams =
     \<lparr>Lifecycle = [Foreign None],
      Config = Cell_config,
      IPCache = (\<lambda>n. ''10.0.0.7''),
      AuthHandlers = Cell_AuthHandlers exampleHandshake (Chan ''rotated'' 0),
      AuthMap = exampleStore\<lparr>entries := [(exampleKey, \<lparr>expiration = 50\<rparr>)]\<rparr>,
      SignalManager = \<lparr>registered = [], registerFault = None\<rparr>,
      CiliumIdentities = Some (Resource ''CiliumIdentity''),
      CiliumNodes = Some (Resource ''CiliumNode'')\<rparr>"


section \<open>Write-through of the cache\<close>

lemma AuthMapCache_set_fail:
  "AuthMapStore_update k v (store c) = Inl e \<Longrightarrow> AuthMapCache_set k v c = (Some e, c)"
  by (simp add: AuthMapCache_set_def)

lemma AuthMapCache_set_ok:
  "AuthMapStore_update k v (store c) = Inr st' \<Longrightarrow>
   AuthMapCache_set k v c = (None, \<lparr>mirror = AList.update k v (mirror c), store = st'\<rparr>)"
  by (simp add: AuthMapCache_set_def)

lemma AuthMapCache_delete_fail:
  "AuthMapStore_delete k (store c) = Inl e \<Longrightarrow> AuthMapCache_delete k c = (Some e, c)"
  by (simp add: AuthMapCache_delete_def)

lemma AuthMapCache_delete_ok:
  "AuthMapStore_delete k (store c) = Inr st' \<Longrightarrow>
   AuthMapCache_delete k c = (None, \<lparr>mirror = AList.delete k (mirror c), store = st'\<rparr>)"
  by (simp add: AuthMapCache_delete_def)

lemma mirrorInSync_set: "mirrorInSync c \<Longrightarrow> mirrorInSync (snd (AuthMapCache_set k v c))"
  by (auto simp: mirrorInSync_def AuthMapCache_set_def AuthMapStore_update_def
      AuthMapCache_get_def store_get_def update_conv' split: option.splits)

lemma mirrorInSync_delete: "mirrorInSync c \<Longrightarrow> mirrorInSync (snd (AuthMapCache_delete k c))"
  by (auto simp: mirrorInSync_def AuthMapCache_delete_def AuthMapStore_delete_def
      AuthMapCache_get_def store_get_def delete_conv' split: option.splits)


text \<open>
  C2. \<open>set\<close> writes to the store first and updates the mirror only when the store update
  succeeds. When the store update fails, \<open>set\<close> returns the store's error and the cache
  (mirror and store) is exactly as before the call; \<open>delete\<close> behaves in the same way.
  Hence a mirror that agrees with the store still agrees with it after any \<open>set\<close> or
  \<open>delete\<close>, successful or not.
\<close>

theorem AuthMapCache_write_through:
  "(\<forall>e. AuthMapStore_update k v (store c) = Inl e \<longrightarrow> AuthMapCache_set k v c = (Some e, c))
   \<and> (\<forall>st'. AuthMapStore_update k v (store c) = Inr st' \<longrightarrow>
         AuthMapCache_set k v c = (None, \<lparr>mirror = AList.update k v (mirror c), store = st'\<rparr>))
   \<and> (\<forall>e. AuthMapStore_delete k (store c) = Inl e \<longrightarrow> AuthMapCache_delete k c = (Some e, c))
   \<and> (\<forall>st'. AuthMapStore_delete k (store c) = Inr st' \<longrightarrow>
         AuthMapCache_delete k c = (None, \<lparr>mirror = AList.delete k (mirror c), store = st'\<rparr>))
   \<and> (mirrorInSync c \<longrightarrow>
         mirrorInSync (snd (AuthMapCache_set k v c)) \<and> mirrorInSync (snd (AuthMapCache_delete k c)))"
  using AuthMapCache_set_fail AuthMapCache_set_ok AuthMapCache_delete_fail AuthMapCache_delete_ok
    mirrorInSync_set mirrorInSync_delete
  by blast

text \<open>
  The write-through at concrete values: against a store whose operations fail, \<open>set\<close> and
  \<open>delete\<close> return the store's error and leave the cache as it was; against a working
  store both take effect in mirror and store.
\<close>

theorem AuthMapCache_write_through_witness:
  "AuthMapStore_update exampleKey \<lparr>expiration = 1600\<rparr> failingStore = Inl (StoreError ''update failed'')
   \<and> AuthMapCache_set exampleKey \<lparr>expiration = 1600\<rparr> \<lparr>mirror = [(exampleKey, \<lparr>expiration = 50\<rparr>)], store = failingStore\<rparr>
       = (Some (StoreError ''update failed''), \<lparr>mirror = [(exampleKey, \<lparr>expiration = 50\<rparr>)], store = failingStore\<rparr>)
   \<and> AuthMapStore_delete exampleKey failingStore = Inl (StoreError ''delete failed'')
   \<and> AuthMapCache_delete exampleKey \<lparr>mirror = [(exampleKey, \<lparr>expiration = 50\<rparr>)], store = failingStore\<rparr>
       = (Some (StoreError ''delete failed''), \<lparr>mirror = [(exampleKey, \<lparr>expiration = 50\<rparr>)], store = failingStore\<rparr>)
   \<and> AuthMapCache_set exampleKey \<lparr>expiration = 1600\<rparr> (newAuthMapCache exampleStore)
       = (None, \<lparr>mirror = [(exampleKey, \<lparr>expiration = 1600\<rparr>)],
                 store = exampleStore\<lparr>entries := [(exampleKey, \<lparr>expiration = 1600\<rparr>)]\<rparr>\<rparr>)
   \<and> AuthMapCache_delete exampleKey
        \<lparr>mirror = [(exampleKey, \<lparr>expiration = 1600\<rparr>)],
         store = exampleStore\<lparr>entries := [(exampleKey, \<lparr>expiration = 1600\<rparr>)]\<rparr>\<rparr>
       = (None, newAuthMapCache exampleStore)
   \<and> mirrorInSync (newAuthMapCache exampleStore)
   \<and> mirrorInSync (snd (AuthMapCache_set exampleKey \<lparr>expiration = 1600\<rparr> (newAuthMapCache exampleStore)))"
proof -
  let ?cF = "\<lparr>mirror = [(exampleKey, \<lparr>expiration = 50\<rparr>)], store = failingStore\<rparr>"
  let ?c1 = "\<lparr>mirror = [(exampleKey, \<lparr>expiration = 1600\<rparr>)],
         store = exampleStore\<lparr>entries := [(exampleKey, \<lparr>expiration = 1600\<rparr>)]\<rparr>\<rparr>"
  have u: "AuthMapStore_update exampleKey \<lparr>expiration = 1600\<rparr> (store ?cF) = Inl (StoreError ''update failed'')"
    by (simp add: AuthMapStore_update_def failingStore_def)
  have d: "AuthMapStore_delete exampleKey (store ?cF) = Inl (StoreError ''delete failed'')"
    by (simp add: AuthMapStore_delete_def failingStore_def)
  have u0: "AuthMapStore_update exampleKey \<lparr>expiration = 1600\<rparr> (store (newAuthMapCache exampleStore))
      = Inr (exampleStore\<lparr>entries := [(exampleKey, \<lparr>expiration = 1600\<rparr>)]\<rparr>)"
    by (simp add: AuthMapStore_update_def exampleStore_def newAuthMapCache_def)
  have d0: "AuthMapStore_delete exampleKey (store ?c1) = Inr exampleStore"
    by (simp add: AuthMapStore_delete_def exampleStore_def)
  have s: "mirrorInSync (newAuthMapCache exampleStore)"
    by (simp add: mirrorInSync_def newAuthMapCache_def exampleStore_def AuthMapCache_get_def
        store_get_def)
  note T1 = AuthMapCache_write_through [of exampleKey "\<lparr>expiration = 1600\<rparr>" ?cF]
  note T2 = AuthMapCache_write_through [of exampleKey "\<lparr>expiration = 1600\<rparr>" "newAuthMapCache exampleStore"]
  note T3 = AuthMapCache_write_through [of exampleKey "\<lparr>expiration = 1600\<rparr>" ?c1]
  have r1: "AuthMapCache_set exampleKey \<lparr>expiration = 1600\<rparr> ?cF = (Some (StoreError ''update failed''), ?cF)"
    using T1 u by blast
  have r2: "AuthMapCache_delete exampleKey ?cF = (Some (StoreError ''delete failed''), ?cF)"
    using T1 d by blast
  have "AuthMapCache_set exampleKey \<lparr>expiration = 1600\<rparr> (newAuthMapCache exampleStore)
      = (None, \<lparr>mirror = AList.update exampleKey \<lparr>expiration = 1600\<rparr> (mirror (newAuthMapCache exampleStore)),
                store = exampleStore\<lparr>entries := [(exampleKey, \<lparr>expiration = 1600\<rparr>)]\<rparr>\<rparr>)"
    using T2 u0 by blast
  then have r3: "AuthMapCache_set exampleKey \<lparr>expiration = 1600\<rparr> (newAuthMapCache exampleStore) = (None, ?c1)"
    by (simp add: newAuthMapCache_def)
  have "AuthMapCache_delete exampleKey ?c1
      = (None, \<lparr>mirror = AList.delete exampleKey (mirror ?c1), store = exampleStore\<rparr>)"
    using T3 d0 by blast
  then have r4: "AuthMapCache_delete exampleKey ?c1 = (None, newAuthMapCache exampleStore)"
    by (simp add: newAuthMapCache_def)
  have r5: "mirrorInSync (snd (AuthMapCache_set exampleKey \<lparr>expiration = 1600\<rparr> (newAuthMapCache exampleStore)))"
    using T2 s by blast
  from u d have u': "AuthMapStore_update exampleKey \<lparr>expiration = 1600\<rparr> failingStore = Inl (StoreError ''update failed'')"
    and d': "AuthMapStore_delete exampleKey failingStore = Inl (StoreError ''delete failed'')"
    by simp_all
  from u' r1 d' r2 r3 r4 s r5 show ?thesis by blast
qed

section \<open>Handling an authentication request\<close>

lemma handleAuthRequest_live:
  "live now (AuthMapCache_get (signalKey sig) (authmap m)) \<Longrightarrow>
   handleAuthRequest now sig m = (None, m)"
  by (simp add: handleAuthRequest_def)

text \<open>
  C1. When the cache holds an unexpired entry for the signal's key, \<open>handleAuthRequest\<close>
  returns without an error and leaves the manager as it was: no handler is invoked and
  the cache is unchanged. Otherwise, with \<open>h\<close> the handler resolved for the signal's auth
  type, \<open>authenticate\<close> of \<open>h\<close> is invoked once (the call is appended to \<open>authCalls\<close>).
  When it returns an expiration, the result is that of \<open>AuthMapCache.set\<close> with this
  expiration; if the store accepts the update, mirror and store then hold the entry, and
  the same signal at any time before the expiration is a no-op. When \<open>authenticate\<close>
  fails, the error is returned and the cache is that of before.
\<close>

theorem handleAuthRequest_hit_or_authenticate:
  "(live now (AuthMapCache_get (signalKey sig) (authmap m)) \<longrightarrow>
      handleAuthRequest now sig m = (None, m))
   \<and> (\<not> live now (AuthMapCache_get (signalKey sig) (authmap m)) \<longrightarrow>
       (\<forall>h. authHandlers m (AuthType sig) = Some h \<longrightarrow>
          (let req = \<lparr>reqKey = signalKey sig,
                      remoteNodeIP = ipCache m (remoteNodeID (signalKey sig))\<rparr>;
               m1 = m\<lparr>authCalls := authCalls m @ [(AuthType sig, req)]\<rparr>
           in (\<forall>exp. authenticate h now req = Inr exp \<longrightarrow>
                 handleAuthRequest now sig m =
                   (fst (AuthMapCache_set (signalKey sig) \<lparr>expiration = exp\<rparr> (authmap m)),
                    m1\<lparr>authmap :=
                         snd (AuthMapCache_set (signalKey sig) \<lparr>expiration = exp\<rparr> (authmap m))\<rparr>)
                 \<and> (updateFault (store (authmap m)) (signalKey sig) = None \<longrightarrow>
                      AuthMapCache_get (signalKey sig)
                          (authmap (snd (handleAuthRequest now sig m)))
                        = Some \<lparr>expiration = exp\<rparr>
                      \<and> store_get (store (authmap (snd (handleAuthRequest now sig m))))
                          (signalKey sig)
                        = Some \<lparr>expiration = exp\<rparr>
                      \<and> (\<forall>now'. now' < exp \<longrightarrow>
                            handleAuthRequest now' sig (snd (handleAuthRequest now sig m))
                              = (None, snd (handleAuthRequest now sig m)))))
            \<and> (\<forall>e. authenticate h now req = Inl e \<longrightarrow>
                 handleAuthRequest now sig m = (Some e, m1) \<and> authmap m1 = authmap m))))"
proof (intro conjI impI allI)
  assume "live now (AuthMapCache_get (signalKey sig) (authmap m))"
  then show "handleAuthRequest now sig m = (None, m)"
    by (rule handleAuthRequest_live)
next
  fix h
  assume miss: "\<not> live now (AuthMapCache_get (signalKey sig) (authmap m))"
    and h: "authHandlers m (AuthType sig) = Some h"
  let ?k = "signalKey sig"
  let ?req = "\<lparr>reqKey = ?k, remoteNodeIP = ipCache m (remoteNodeID ?k)\<rparr>"
  let ?m1 = "m\<lparr>authCalls := authCalls m @ [(AuthType sig, ?req)]\<rparr>"
  have ok: "handleAuthRequest now sig m =
              (fst (AuthMapCache_set ?k \<lparr>expiration = exp\<rparr> (authmap m)),
               ?m1\<lparr>authmap := snd (AuthMapCache_set ?k \<lparr>expiration = exp\<rparr> (authmap m))\<rparr>)"
    if "authenticate h now ?req = Inr exp" for exp
    using miss h that by (simp add: handleAuthRequest_def Let_def split: prod.splits)
  have cached: "AuthMapCache_get ?k (authmap (snd (handleAuthRequest now sig m)))
                  = Some \<lparr>expiration = exp\<rparr>
                \<and> store_get (store (authmap (snd (handleAuthRequest now sig m)))) ?k
                  = Some \<lparr>expiration = exp\<rparr>"
    if "authenticate h now ?req = Inr exp" "updateFault (store (authmap m)) ?k = None" for exp
    using ok [OF that(1)] that(2)
    by (simp add: AuthMapCache_set_def AuthMapStore_update_def AuthMapCache_get_def
        store_get_def update_conv')
  have again: "handleAuthRequest now' sig (snd (handleAuthRequest now sig m))
                 = (None, snd (handleAuthRequest now sig m))"
    if "authenticate h now ?req = Inr exp" "updateFault (store (authmap m)) ?k = None"
      "now' < exp" for exp now'
  proof -
    have "live now' (AuthMapCache_get ?k (authmap (snd (handleAuthRequest now sig m))))"
      using cached [OF that(1,2)] that(3) by (simp add: live_def)
    then show ?thesis by (rule handleAuthRequest_live)
  qed
  have fail: "handleAuthRequest now sig m = (Some e, ?m1) \<and> authmap ?m1 = authmap m"
    if "authenticate h now ?req = Inl e" for e
    using miss h that by (simp add: handleAuthRequest_def Let_def)
  show "let req = ?req; m1 = m\<lparr>authCalls := authCalls m @ [(AuthType sig, req)]\<rparr>
        in (\<forall>exp. authenticate h now req = Inr exp \<longrightarrow>
                 handleAuthRequest now sig m =
                   (fst (AuthMapCache_set (signalKey sig) \<lparr>expiration = exp\<rparr> (authmap m)),
                    m1\<lparr>authmap :=
                         snd (AuthMapCache_set (signalKey sig) \<lparr>expiration = exp\<rparr> (authmap m))\<rparr>)
                 \<and> (updateFault (store (authmap m)) (signalKey sig) = None \<longrightarrow>
                      AuthMapCache_get (signalKey sig)
                          (authmap (snd (handleAuthRequest now sig m)))
                        = Some \<lparr>expiration = exp\<rparr>
                      \<and> store_get (store (authmap (snd (handleAuthRequest now sig m))))
                          (signalKey sig)
                        = Some \<lparr>expiration = exp\<rparr>
                      \<and> (\<forall>now'. now' < exp \<longrightarrow>
                            handleAuthRequest now' sig (snd (handleAuthRequest now sig m))
                              = (None, snd (handleAuthRequest now sig m)))))
            \<and> (\<forall>e. authenticate h now req = Inl e \<longrightarrow>
                 handleAuthRequest now sig m = (Some e, m1) \<and> authmap m1 = authmap m)"
    unfolding Let_def using ok cached again fail by blast
qed

text \<open>
  The end-to-end scenario: the signal \<open>(100, 200, 7, mutual)\<close> at time 1000 with an empty
  cache calls the handler once and caches expiration 1600 in mirror and store; the same
  signal at 1599 calls no handler; the sweep at 1600 removes the entry; the same signal
  then calls the handler again. A signal of type always-fail calls its handler and caches
  nothing.
\<close>

theorem handleAuthRequest_hit_or_authenticate_witness:
  "handleAuthRequest 1000 exampleSignal exampleManager =
     (None, exampleManager
        \<lparr>authCalls := [(AuthTypeMutual, \<lparr>reqKey = exampleKey, remoteNodeIP = ''10.0.0.7''\<rparr>)],
         authmap := \<lparr>mirror = [(exampleKey, \<lparr>expiration = 1600\<rparr>)],
                      store = exampleStore\<lparr>entries := [(exampleKey, \<lparr>expiration = 1600\<rparr>)]\<rparr>\<rparr>\<rparr>)
   \<and> handleAuthRequest 1599 exampleSignal
        (exampleManager
          \<lparr>authCalls := [(AuthTypeMutual, \<lparr>reqKey = exampleKey, remoteNodeIP = ''10.0.0.7''\<rparr>)],
           authmap := \<lparr>mirror = [(exampleKey, \<lparr>expiration = 1600\<rparr>)],
                        store = exampleStore\<lparr>entries := [(exampleKey, \<lparr>expiration = 1600\<rparr>)]\<rparr>\<rparr>\<rparr>)
     = (None, exampleManager
          \<lparr>authCalls := [(AuthTypeMutual, \<lparr>reqKey = exampleKey, remoteNodeIP = ''10.0.0.7''\<rparr>)],
           authmap := \<lparr>mirror = [(exampleKey, \<lparr>expiration = 1600\<rparr>)],
                        store = exampleStore\<lparr>entries := [(exampleKey, \<lparr>expiration = 1600\<rparr>)]\<rparr>\<rparr>\<rparr>)
   \<and> CleanupExpiredEntries 1600
        \<lparr>mirror = [(exampleKey, \<lparr>expiration = 1600\<rparr>)],
         store = exampleStore\<lparr>entries := [(exampleKey, \<lparr>expiration = 1600\<rparr>)]\<rparr>\<rparr>
     = ([], newAuthMapCache exampleStore)
   \<and> handleAuthRequest 1600 exampleSignal
        (exampleManager
          \<lparr>authCalls := [(AuthTypeMutual, \<lparr>reqKey = exampleKey, remoteNodeIP = ''10.0.0.7''\<rparr>)]\<rparr>)
     = (None, exampleManager
          \<lparr>authCalls := [(AuthTypeMutual, \<lparr>reqKey = exampleKey, remoteNodeIP = ''10.0.0.7''\<rparr>),
                         (AuthTypeMutual, \<lparr>reqKey = exampleKey, remoteNodeIP = ''10.0.0.7''\<rparr>)],
           authmap := \<lparr>mirror = [(exampleKey, \<lparr>expiration = 2200\<rparr>)],
                        store = exampleStore\<lparr>entries := [(exampleKey, \<lparr>expiration = 2200\<rparr>)]\<rparr>\<rparr>\<rparr>)
   \<and> handleAuthRequest 1000 (exampleSignal\<lparr>AuthType := AuthTypeAlwaysFail\<rparr>) exampleManager
     = (Some (AuthError ''authenticate failed by always-fail handler''),
        exampleManager
          \<lparr>authCalls := [(AuthTypeAlwaysFail, \<lparr>reqKey = exampleKey, remoteNodeIP = ''10.0.0.7''\<rparr>)]\<rparr>)"
proof -
  let ?req = "\<lparr>reqKey = exampleKey, remoteNodeIP = ''10.0.0.7''\<rparr>"
  let ?c1 = "\<lparr>mirror = [(exampleKey, \<lparr>expiration = 1600\<rparr>)],
              store = exampleStore\<lparr>entries := [(exampleKey, \<lparr>expiration = 1600\<rparr>)]\<rparr>\<rparr>"
  let ?m1 = "exampleManager\<lparr>authCalls := [(AuthTypeMutual, ?req)], authmap := ?c1\<rparr>"
  let ?m2 = "exampleManager\<lparr>authCalls := [(AuthTypeMutual, ?req)]\<rparr>"
  let ?h = "newMutualAuthHandler exampleHandshake (Chan ''rotated'' 0)"
  have k: "signalKey exampleSignal = exampleKey"
    "signalKey (exampleSignal\<lparr>AuthType := AuthTypeAlwaysFail\<rparr>) = exampleKey"
    by (simp_all add: signalKey_def exampleSignal_def exampleKey_def)
  have t: "AuthType exampleSignal = AuthTypeMutual"
    by (simp add: exampleSignal_def)
  have miss0: "\<not> live 1000 (AuthMapCache_get exampleKey (authmap exampleManager))"
    by (simp add: live_def AuthMapCache_get_def exampleManager_def newAuthMapCache_def)
  have hit1: "live 1599 (AuthMapCache_get exampleKey (authmap ?m1))"
    by (simp add: live_def AuthMapCache_get_def)
  have miss2: "\<not> live 1600 (AuthMapCache_get exampleKey (authmap ?m2))"
    by (simp add: live_def AuthMapCache_get_def exampleManager_def newAuthMapCache_def)
  have h: "authHandlers exampleManager AuthTypeMutual = Some ?h"
    "authHandlers ?m2 AuthTypeMutual = Some ?h"
    "authHandlers exampleManager AuthTypeAlwaysFail = Some newAlwaysFailAuthHandler"
    by (simp_all add: exampleManager_def)
  have ip: "ipCache exampleManager (remoteNodeID exampleKey) = ''10.0.0.7''"
    "ipCache ?m2 (remoteNodeID exampleKey) = ''10.0.0.7''"
    by (simp_all add: exampleManager_def)
  have ac: "authCalls exampleManager = []"
    by (simp add: exampleManager_def)
  have a: "authenticate ?h 1000 ?req = Inr 1600" "authenticate ?h 1600 ?req = Inr 2200"
    "authenticate newAlwaysFailAuthHandler 1000 ?req
       = Inl (AuthError ''authenticate failed by always-fail handler'')"
    by (simp_all add: newMutualAuthHandler_def exampleHandshake_def newAlwaysFailAuthHandler_def)
  have s1: "AuthMapCache_set exampleKey \<lparr>expiration = 1600\<rparr> (authmap exampleManager) = (None, ?c1)"
    by (simp add: AuthMapCache_set_def AuthMapStore_update_def exampleManager_def
        newAuthMapCache_def exampleStore_def)
  have s2: "AuthMapCache_set exampleKey \<lparr>expiration = 2200\<rparr> (authmap ?m2)
      = (None, \<lparr>mirror = [(exampleKey, \<lparr>expiration = 2200\<rparr>)],
                store = exampleStore\<lparr>entries := [(exampleKey, \<lparr>expiration = 2200\<rparr>)]\<rparr>\<rparr>)"
    by (simp add: AuthMapCache_set_def AuthMapStore_update_def exampleManager_def
        newAuthMapCache_def exampleStore_def)
  have r1: "handleAuthRequest 1000 exampleSignal exampleManager = (None, ?m1)"
    using handleAuthRequest_hit_or_authenticate [of 1000 exampleSignal exampleManager]
      miss0 h(1) ip(1) a(1) s1
    by (simp add: k t ac Let_def)
  have r2: "handleAuthRequest 1599 exampleSignal ?m1 = (None, ?m1)"
    using handleAuthRequest_hit_or_authenticate [of 1599 exampleSignal ?m1] hit1
    by (simp add: k)
  have r3: "CleanupExpiredEntries 1600 ?c1 = ([], newAuthMapCache exampleStore)"
    by (simp add: CleanupExpiredEntries_def deleteMatching_def entriesMatching_def
        AuthMapCache_delete_def AuthMapStore_delete_def exampleStore_def newAuthMapCache_def)
  have r4: "handleAuthRequest 1600 exampleSignal ?m2
     = (None, exampleManager
          \<lparr>authCalls := [(AuthTypeMutual, ?req), (AuthTypeMutual, ?req)],
           authmap := \<lparr>mirror = [(exampleKey, \<lparr>expiration = 2200\<rparr>)],
                        store = exampleStore\<lparr>entries := [(exampleKey, \<lparr>expiration = 2200\<rparr>)]\<rparr>\<rparr>\<rparr>)"
    using handleAuthRequest_hit_or_authenticate [of 1600 exampleSignal ?m2]
      miss2 h(2) ip(2) a(2) s2
    by (simp add: k t ac Let_def)
  have r5: "handleAuthRequest 1000 (exampleSignal\<lparr>AuthType := AuthTypeAlwaysFail\<rparr>) exampleManager
     = (Some (AuthError ''authenticate failed by always-fail handler''),
        exampleManager\<lparr>authCalls := [(AuthTypeAlwaysFail, ?req)]\<rparr>)"
    using handleAuthRequest_hit_or_authenticate
      [of 1000 "exampleSignal\<lparr>AuthType := AuthTypeAlwaysFail\<rparr>" exampleManager]
      miss0 h(3) ip(1) a(3)
    by (simp add: k ac Let_def)
  from r1 r2 r3 r4 r5 show ?thesis by blast
qed


section \<open>Effect of deleting the matching entries\<close>












section \<open>Garbage collection\<close>







section \<open>Certificate rotation\<close>






section \<open>Configuration and job registration\<close>




text \<open>
  C10. The jobs \<open>registerGCJobs\<close> adds to the group contain the identity-deletion observer
  exactly when the \<open>CiliumIdentities\<close> resource is not nil, the node-deletion observer
  exactly when the \<open>CiliumNodes\<close> resource is not nil, and always the expiration timer.
  With both resources nil the timer is the only job added.
\<close>

theorem registerGCJobs_registration:
  "\<exists>added. registerGCJobs jobGroup params = jobGroup @ added
     \<and> (mapGC_handleCiliumIdentityEvent \<in> jobFunc_of ` set added \<longleftrightarrow> CiliumIdentities params \<noteq> None)
     \<and> (mapGC_handleCiliumNodeEvent \<in> jobFunc_of ` set added \<longleftrightarrow> CiliumNodes params \<noteq> None)
     \<and> Timer ''auth expiration gc'' mapGC_CleanupExpiredEntries
          (MeshAuthExpiredGCInterval (Config params)) \<in> set added
     \<and> registerGCJobs jobGroup (params\<lparr>CiliumIdentities := None, CiliumNodes := None\<rparr>) =
         jobGroup @ [Timer ''auth expiration gc'' mapGC_CleanupExpiredEntries
                       (MeshAuthExpiredGCInterval (Config params))]"
  by (cases "CiliumIdentities params"; cases "CiliumNodes params")
     (simp_all add: registerGCJobs_def jobFunc_of_def)

text \<open>With both resources present the three jobs are added, in the order of the source.\<close>

theorem registerGCJobs_registration_witness:
  "registerGCJobs [] exampleParams =
     [Observer ''auth identities gc'' mapGC_handleCiliumIdentityEvent
        (FromResource (Resource ''CiliumIdentity'')),
      Observer ''auth nodes gc'' mapGC_handleCiliumNodeEvent
        (FromResource (Resource ''CiliumNode'')),
      Timer ''auth expiration gc'' mapGC_CleanupExpiredEntries 900000000000]
   \<and> registerGCJobs [] (exampleParams\<lparr>CiliumIdentities := None, CiliumNodes := None\<rparr>) =
     [Timer ''auth expiration gc'' mapGC_CleanupExpiredEntries 900000000000]"
proof -
  have i: "MeshAuthExpiredGCInterval (Config exampleParams) = 900000000000"
    by (simp add: exampleParams_def Cell_config_def time_Minute_def time_Second_def)
  have a: "registerGCJobs [] exampleParams =
     [Observer ''auth identities gc'' mapGC_handleCiliumIdentityEvent
        (FromResource (Resource ''CiliumIdentity'')),
      Observer ''auth nodes gc'' mapGC_handleCiliumNodeEvent
        (FromResource (Resource ''CiliumNode'')),
      Timer ''auth expiration gc'' mapGC_CleanupExpiredEntries 900000000000]"
    using i by (simp add: registerGCJobs_def exampleParams_def)
  from registerGCJobs_registration [of "[]" exampleParams] i
  have "registerGCJobs [] (exampleParams\<lparr>CiliumIdentities := None, CiliumNodes := None\<rparr>) =
     [Timer ''auth expiration gc'' mapGC_CleanupExpiredEntries 900000000000]"
    by auto
  with a show ?thesis by blast
qed

section \<open>The handlers the cell provides\<close>

text \<open>
  C9. The null variant returns the far-future expiration for every input and the
  always-fail variant returns an error for every input. The constructors the cell
  provides are those of the mutual and the always-fail handler: the manager built from
  them has the always-fail handler, and no handler for auth type null, so that a signal
  of type null is answered with an error and no handler is called.
\<close>

theorem Cell_AuthHandlers_null_unresolved:
  "authenticate nullAuthHandler now req = Inr farFuture
   \<and> isl (authenticate newAlwaysFailAuthHandler now req)
   \<and> map (map_option authType) (Cell_AuthHandlers handshake rotated)
       = [Some AuthTypeMutual, Some AuthTypeAlwaysFail]
   \<and> (\<exists>mgr. newAuthManager (Cell_AuthHandlers handshake rotated) (newAuthMapCache st) ipc = Inr mgr
        \<and> authHandlers mgr AuthTypeAlwaysFail = Some newAlwaysFailAuthHandler
        \<and> authHandlers mgr AuthTypeMutual = Some (newMutualAuthHandler handshake rotated)
        \<and> authHandlers mgr AuthTypeNull = None
        \<and> handleAuthRequest now (exampleSignal\<lparr>AuthType := AuthTypeNull\<rparr>) mgr
            = (Some (UnknownAuthType AuthTypeNull), mgr))"
  by (simp add: nullAuthHandler_def newAlwaysFailAuthHandler_def newMutualAuthHandler_def
      Cell_AuthHandlers_def newAuthManager_def handleAuthRequest_def live_def
      AuthMapCache_get_def newAuthMapCache_def)


section \<open>Startup order\<close>

lemma map_of_fold_update:
  "map_of (fold (\<lambda>(k, v). AList.update k v) kvs al) = map_of al ++ map_of (rev kvs)"
proof (induction kvs arbitrary: al)
  case Nil
  then show ?case by simp
next
  case (Cons kv kvs)
  obtain k v where kv: "kv = (k, v)" by (cases kv)
  have "map_of (fold (\<lambda>(k, v). AList.update k v) (kv # kvs) al)
      = map_of (AList.update k v al) ++ map_of (rev kvs)"
    using Cons.IH [of "AList.update k v al"] kv by simp
  also have "\<dots> = map_of al ++ map_of (rev (kv # kvs))"
    by (simp add: kv update_conv' map_add_upd_left [symmetric] fun_eq_iff map_add_def
        split: option.splits)
  finally show ?case .
qed

lemma restoreCache_new:
  "restoreCache (newAuthMapCache st) = (r, c) \<Longrightarrow>
   r = allFault st \<and> store c = st
   \<and> (allFault st = None \<longrightarrow> (\<forall>k. AuthMapCache_get k c = store_get st k))"
proof -
  assume a: "restoreCache (newAuthMapCache st) = (r, c)"
  have d: "distinct (map fst (AList.clearjunk (entries st)))" by simp
  have "map_of (rev (AList.clearjunk (entries st))) = map_of (AList.clearjunk (entries st))"
    using d by (subst map_of_inject_set) (simp_all add: rev_map [symmetric])
  then have "map_of (rev (AList.clearjunk (entries st))) = map_of (entries st)"
    by (simp add: map_of_clearjunk)
  then show ?thesis
    using a
    by (auto simp: restoreCache_def AuthMapStore_all_def newAuthMapCache_def
        AuthMapCache_get_def store_get_def map_of_fold_update split: option.splits)
qed

lemma Lifecycle_Start_append:
  "Lifecycle_Start (xs @ ys) sys =
     (case Lifecycle_Start xs sys of
        (Some err, sys') \<Rightarrow> (Some err, sys')
      | (None, sys') \<Rightarrow> Lifecycle_Start ys sys')"
  by (induction xs arbitrary: sys) (auto split: prod.splits option.splits)

lemma Lifecycle_Start_foreign:
  "list_all foreignHook hs \<Longrightarrow> snd (Lifecycle_Start hs sys) = sys"
  by (induction hs arbitrary: sys)
     (auto simp: foreignHook_def split: hook.splits prod.splits option.splits)

lemma Lifecycle_Start_foreign_ok:
  "list_all (\<lambda>h. h = Foreign None) hs \<Longrightarrow> Lifecycle_Start hs sys = (None, sys)"
  by (induction hs arbitrary: sys) auto

lemma registerReAuthenticationJob_prefix:
  "\<exists>added. registerReAuthenticationJob jobGroup ahs = jobGroup @ added"
proof (induction jobGroup ahs rule: registerReAuthenticationJob.induct)
  case (1 jobGroup)
  then show ?case by simp
next
  case (2 jobGroup ahs)
  then show ?case by simp
next
  case (3 jobGroup ah ahs)
  then show ?case by (cases "subscribeToRotatedIdentities ah") auto
qed

lemma registerGCJobs_prefix: "\<exists>added. registerGCJobs jobGroup params = jobGroup @ added"
  by (cases "CiliumIdentities params"; cases "CiliumNodes params")
     (simp_all add: registerGCJobs_def)

lemma newManager_ok:
  assumes "newManager rt params = (None, w)"
  shows "\<exists>mgr jobs. manager w = Some mgr
           \<and> authmap mgr = newAuthMapCache (AuthMap params)
           \<and> lifecycle w = Lifecycle params @ [OnStart_restoreCache, JobGroup jobs]
           \<and> list_ex consumesSignals jobs"
proof -
  obtain mgr where mgr: "newAuthManager (AuthHandlers params) (newAuthMapCache (AuthMap params))
      (IPCache params) = Inr mgr"
    using assms by (auto simp: newManager_def Let_def split: sum.splits)
  obtain jobGroup1 sm where reg: "registerSignalAuthenticationJob rt [] (SignalManager params)
      (Config params) = Inr (jobGroup1, sm)"
    using assms mgr
    by (auto simp: newManager_def Let_def split: sum.splits error.splits)
  let ?jobs = "registerGCJobs (registerReAuthenticationJob jobGroup1 (AuthHandlers params)) params"
  have w: "w = \<lparr>lifecycle = (Lifecycle params @ [OnStart_restoreCache]) @ [JobGroup ?jobs],
                 signals = sm, manager = Some mgr\<rparr>"
    using assms mgr reg by (simp add: newManager_def Let_def)
  have am: "authmap mgr = newAuthMapCache (AuthMap params)"
    using mgr by (auto simp: newAuthManager_def split: sum.splits)
  obtain ch where j1: "jobGroup1 = [Observer ''auth request processing'' mgr_handleAuthRequest
      (FromChannel ch)]"
    using reg
    by (auto simp: registerSignalAuthenticationJob_def split: sum.splits)
  obtain a1 where a1: "registerReAuthenticationJob jobGroup1 (AuthHandlers params) = jobGroup1 @ a1"
    using registerReAuthenticationJob_prefix by blast
  obtain a2 where a2: "?jobs = (jobGroup1 @ a1) @ a2"
    using registerGCJobs_prefix [of "jobGroup1 @ a1" params] a1 by auto
  have "list_ex consumesSignals ?jobs"
    using a2 j1 by (simp add: consumesSignals_def)
  with w am show ?thesis by auto
qed


lemma Lifecycle_Start_foreign_eq:
  "list_all foreignHook hs \<Longrightarrow> Lifecycle_Start hs sys = (fst (Lifecycle_Start hs sys), sys)"
  using Lifecycle_Start_foreign [of hs sys] by (cases "Lifecycle_Start hs sys") simp

lemma take_two:
  "take m [a, b] = [] \<or> take m [a, b] = [a] \<or> take m [a, b] = [a, b]"
proof (cases m)
  case 0
  then show ?thesis by simp
next
  case (Suc m')
  then show ?thesis by (cases m') simp_all
qed

lemma prefix_safe:
  assumes F: "list_all foreignHook F"
    and P: "P = [] \<or> P = [OnStart_restoreCache] \<or> P = [OnStart_restoreCache, JobGroup jobs]"
    and r0: "running sys0 = []"
    and run: "Lifecycle_Start (F @ P) sys0 = (err, sys)"
    and serving: "list_ex consumesSignals (running sys)"
  shows "fst (restoreCache (authmap (sysManager sys0))) = None \<and> cacheRestored sys
         \<and> authmap (sysManager sys) = snd (restoreCache (authmap (sysManager sys0)))"
proof -
  note FE = Lifecycle_Start_foreign_eq [OF F, of sys0]
  show ?thesis
  proof (cases "fst (Lifecycle_Start F sys0)")
    case (Some e)
    with FE run have "sys = sys0"
      by (simp add: Lifecycle_Start_append split: prod.splits option.splits)
    with r0 serving show ?thesis by simp
  next
    case None
    with FE run have rest: "Lifecycle_Start P sys0 = (err, sys)"
      by (simp add: Lifecycle_Start_append split: prod.splits option.splits)
    obtain r c where rc: "restoreCache (authmap (sysManager sys0)) = (r, c)"
      by (cases "restoreCache (authmap (sysManager sys0))")
    from P show ?thesis
    proof (elim disjE)
      assume "P = []"
      with rest r0 serving show ?thesis by simp
    next
      assume "P = [OnStart_restoreCache]"
      with rest rc have "running sys = running sys0"
        by (cases r) auto
      with r0 serving show ?thesis by simp
    next
      assume p: "P = [OnStart_restoreCache, JobGroup jobs]"
      show ?thesis
      proof (cases r)
        case None
        with p rest rc show ?thesis by auto
      next
        case (Some e)
        with p rest rc have "running sys = running sys0" by auto
        with r0 serving show ?thesis by simp
      qed
    qed
  qed
qed

text \<open>
  C3. Let \<open>newManager\<close> succeed on a lifecycle that so far holds hooks of other components.
  At every point of the start (after any number of hooks), a job that consumes the signal
  channel runs only if \<open>restoreCache\<close> has returned without error, and then the mirror
  holds exactly the entries of the store. If \<open>restoreCache\<close> returns an error, the start
  returns an error (the wrapped error of \<open>restoreCache\<close> unless an earlier hook failed),
  no job runs and no signal is served. If no hook fails, the start succeeds and signals
  are served.
\<close>

theorem restoreCache_before_signal_processing:
  assumes nm: "newManager rt params = (None, w)"
    and F: "list_all foreignHook (Lifecycle params)"
  shows "\<exists>mgr. manager w = Some mgr
     \<and> (\<forall>n err sys.
           Lifecycle_Start (take n (lifecycle w)) (initialSystem mgr) = (err, sys)
           \<and> list_ex consumesSignals (running sys)
           \<longrightarrow> fst (restoreCache (authmap mgr)) = None \<and> cacheRestored sys
               \<and> (\<forall>k. AuthMapCache_get k (authmap (sysManager sys)) = store_get (AuthMap params) k))
     \<and> (\<forall>e. fst (restoreCache (authmap mgr)) = Some e \<longrightarrow>
           (\<exists>err sys. Lifecycle_Start (lifecycle w) (initialSystem mgr) = (Some err, sys)
              \<and> running sys = []
              \<and> (\<forall>now sig. serveSignal now sig sys = None)
              \<and> (list_all (\<lambda>h. h = Foreign None) (Lifecycle params)
                   \<longrightarrow> err = Wrapped ''failed to restore auth map cache'' e)))
     \<and> (fst (restoreCache (authmap mgr)) = None
          \<and> list_all (\<lambda>h. h = Foreign None) (Lifecycle params) \<longrightarrow>
           (\<exists>sys. Lifecycle_Start (lifecycle w) (initialSystem mgr) = (None, sys)
              \<and> cacheRestored sys \<and> list_ex consumesSignals (running sys)
              \<and> (\<forall>now sig. serveSignal now sig sys \<noteq> None)))"
proof -
  from newManager_ok [OF nm] obtain mgr jobs where
    m: "manager w = Some mgr"
    and am: "authmap mgr = newAuthMapCache (AuthMap params)"
    and lc: "lifecycle w = Lifecycle params @ [OnStart_restoreCache, JobGroup jobs]"
    and js: "list_ex consumesSignals jobs"
    by blast
  let ?sys0 = "initialSystem mgr"
  let ?F = "Lifecycle params"
  have s0: "running ?sys0 = []" "sysManager ?sys0 = mgr"
    by (simp_all add: initialSystem_def)
  obtain r c where rc: "restoreCache (authmap mgr) = (r, c)"
    by (cases "restoreCache (authmap mgr)")
  note RN = restoreCache_new [OF rc [unfolded am]]
  have a: "\<forall>n err sys.
           Lifecycle_Start (take n (lifecycle w)) ?sys0 = (err, sys)
           \<and> list_ex consumesSignals (running sys)
           \<longrightarrow> fst (restoreCache (authmap mgr)) = None \<and> cacheRestored sys
               \<and> (\<forall>k. AuthMapCache_get k (authmap (sysManager sys)) = store_get (AuthMap params) k)"
  proof (intro allI impI)
    fix n err sys
    assume A: "Lifecycle_Start (take n (lifecycle w)) ?sys0 = (err, sys)
           \<and> list_ex consumesSignals (running sys)"
    let ?P = "take (n - length ?F) [OnStart_restoreCache, JobGroup jobs]"
    have tk: "take n (lifecycle w) = take n ?F @ ?P"
      by (simp add: lc)
    have Fn: "list_all foreignHook (take n ?F)"
      using F by (auto simp: list_all_iff dest: in_set_takeD)
    have P: "?P = [] \<or> ?P = [OnStart_restoreCache] \<or> ?P = [OnStart_restoreCache, JobGroup jobs]"
      by (rule take_two)
    from A tk have run: "Lifecycle_Start (take n ?F @ ?P) ?sys0 = (err, sys)"
      and sv: "list_ex consumesSignals (running sys)" by simp_all
    from prefix_safe [OF Fn P s0(1) run sv]
    have x: "fst (restoreCache (authmap mgr)) = None" "cacheRestored sys"
      "authmap (sysManager sys) = snd (restoreCache (authmap mgr))"
      by (simp_all add: s0)
    from x(1) rc RN have "\<forall>k. AuthMapCache_get k c = store_get (AuthMap params) k" by simp
    with x rc show "fst (restoreCache (authmap mgr)) = None \<and> cacheRestored sys
               \<and> (\<forall>k. AuthMapCache_get k (authmap (sysManager sys)) = store_get (AuthMap params) k)"
      by simp
  qed
  note FE = Lifecycle_Start_foreign_eq [OF F, of ?sys0]
  have b: "\<forall>e. fst (restoreCache (authmap mgr)) = Some e \<longrightarrow>
           (\<exists>err sys. Lifecycle_Start (lifecycle w) ?sys0 = (Some err, sys)
              \<and> running sys = []
              \<and> (\<forall>now sig. serveSignal now sig sys = None)
              \<and> (list_all (\<lambda>h. h = Foreign None) (Lifecycle params)
                   \<longrightarrow> err = Wrapped ''failed to restore auth map cache'' e))"
  proof (intro allI impI)
    fix e
    assume "fst (restoreCache (authmap mgr)) = Some e"
    with rc have r: "r = Some e" by simp
    show "\<exists>err sys. Lifecycle_Start (lifecycle w) ?sys0 = (Some err, sys)
              \<and> running sys = []
              \<and> (\<forall>now sig. serveSignal now sig sys = None)
              \<and> (list_all (\<lambda>h. h = Foreign None) (Lifecycle params)
                   \<longrightarrow> err = Wrapped ''failed to restore auth map cache'' e)"
    proof (cases "fst (Lifecycle_Start ?F ?sys0)")
      case (Some e')
      with FE have "Lifecycle_Start (lifecycle w) ?sys0 = (Some e', ?sys0)"
        by (simp add: lc Lifecycle_Start_append)
      moreover have "\<not> list_all (\<lambda>h. h = Foreign None) ?F"
        using Some Lifecycle_Start_foreign_ok [of ?F ?sys0] by auto
      ultimately show ?thesis
        using s0 by (auto simp: serveSignal_def)
    next
      case None
      with FE rc r s0 have "Lifecycle_Start (lifecycle w) ?sys0
          = (Some (Wrapped ''failed to restore auth map cache'' e),
             ?sys0\<lparr>sysManager := mgr\<lparr>authmap := c\<rparr>\<rparr>)"
        by (simp add: lc Lifecycle_Start_append)
      then show ?thesis
        using s0 by (auto simp: serveSignal_def)
    qed
  qed
  have c: "fst (restoreCache (authmap mgr)) = None
          \<and> list_all (\<lambda>h. h = Foreign None) (Lifecycle params) \<longrightarrow>
           (\<exists>sys. Lifecycle_Start (lifecycle w) ?sys0 = (None, sys)
              \<and> cacheRestored sys \<and> list_ex consumesSignals (running sys)
              \<and> (\<forall>now sig. serveSignal now sig sys \<noteq> None))"
  proof
    assume A: "fst (restoreCache (authmap mgr)) = None
          \<and> list_all (\<lambda>h. h = Foreign None) (Lifecycle params)"
    with rc have r: "r = None" by simp
    from A have "Lifecycle_Start ?F ?sys0 = (None, ?sys0)"
      by (simp add: Lifecycle_Start_foreign_ok)
    with rc r s0 have "Lifecycle_Start (lifecycle w) ?sys0
        = (None, ?sys0\<lparr>sysManager := mgr\<lparr>authmap := c\<rparr>, cacheRestored := True,
                         running := jobs\<rparr>)"
      by (simp add: lc Lifecycle_Start_append)
    then show "\<exists>sys. Lifecycle_Start (lifecycle w) ?sys0 = (None, sys)
              \<and> cacheRestored sys \<and> list_ex consumesSignals (running sys)
              \<and> (\<forall>now sig. serveSignal now sig sys \<noteq> None)"
      using js by (simp add: serveSignal_def)
  qed
  from m a b c show ?thesis by blast
qed


text \<open>
  The cell with its default configuration over a store holding one entry: the start
  succeeds, the cache is restored and signals are served. Over a store whose enumeration
  fails, the start fails with the wrapped error and no job runs.
\<close>

theorem restoreCache_before_signal_processing_witness:
  "fst (newManager exampleRuntime exampleParams) = None
   \<and> list_all foreignHook (Lifecycle exampleParams)
   \<and> (\<exists>mgr sys. manager (snd (newManager exampleRuntime exampleParams)) = Some mgr
         \<and> Lifecycle_Start (lifecycle (snd (newManager exampleRuntime exampleParams))) (initialSystem mgr)
             = (None, sys)
         \<and> cacheRestored sys \<and> list_ex consumesSignals (running sys)
         \<and> AuthMapCache_get exampleKey (authmap (sysManager sys)) = Some \<lparr>expiration = 50\<rparr>)
   \<and> fst (newManager exampleRuntime (exampleParams\<lparr>AuthMap := failingStore\<rparr>)) = None
   \<and> (\<exists>mgr sys. manager (snd (newManager exampleRuntime (exampleParams\<lparr>AuthMap := failingStore\<rparr>))) = Some mgr
         \<and> Lifecycle_Start (lifecycle (snd (newManager exampleRuntime (exampleParams\<lparr>AuthMap := failingStore\<rparr>))))
               (initialSystem mgr)
             = (Some (Wrapped ''failed to restore auth map cache'' (StoreError ''iteration failed'')),
                sys)
         \<and> running sys = []
         \<and> serveSignal 1000 exampleSignal sys = None)"
proof -
  let ?pF = "exampleParams\<lparr>AuthMap := failingStore\<rparr>"
  have ok: "fst (newManager exampleRuntime exampleParams) = None" "fst (newManager exampleRuntime ?pF) = None"
    by (simp_all add: newManager_def newAuthManager_def exampleParams_def Cell_AuthHandlers_def
        newMutualAuthHandler_def newAlwaysFailAuthHandler_def
        registerSignalAuthenticationJob_def make_chan_def sizeOutOfRange_def
        exampleRuntime_def RegisterHandler_def Cell_config_def)
  then have nm: "newManager exampleRuntime exampleParams = (None, snd (newManager exampleRuntime exampleParams))"
    and nmF: "newManager exampleRuntime ?pF = (None, snd (newManager exampleRuntime ?pF))"
    by (simp_all add: prod_eq_iff)
  have F: "list_all foreignHook (Lifecycle exampleParams)"
    "list_all foreignHook (Lifecycle ?pF)"
    by (simp_all add: exampleParams_def foreignHook_def)
  have F0: "list_all (\<lambda>h. h = Foreign None) (Lifecycle exampleParams)"
    "list_all (\<lambda>h. h = Foreign None) (Lifecycle ?pF)"
    by (simp_all add: exampleParams_def)
  have sg: "store_get (AuthMap exampleParams) exampleKey = Some \<lparr>expiration = 50\<rparr>"
    by (simp add: store_get_def exampleParams_def exampleStore_def)
  from restoreCache_before_signal_processing [OF nm F(1)] obtain mgr where
    m: "manager (snd (newManager exampleRuntime exampleParams)) = Some mgr"
    and inv: "\<forall>n err sys.
           Lifecycle_Start (take n (lifecycle (snd (newManager exampleRuntime exampleParams)))) (initialSystem mgr)
             = (err, sys)
           \<and> list_ex consumesSignals (running sys)
           \<longrightarrow> fst (restoreCache (authmap mgr)) = None \<and> cacheRestored sys
               \<and> (\<forall>k. AuthMapCache_get k (authmap (sysManager sys))
                      = store_get (AuthMap exampleParams) k)"
    and good: "fst (restoreCache (authmap mgr)) = None
          \<and> list_all (\<lambda>h. h = Foreign None) (Lifecycle exampleParams) \<longrightarrow>
           (\<exists>sys. Lifecycle_Start (lifecycle (snd (newManager exampleRuntime exampleParams))) (initialSystem mgr)
                    = (None, sys)
              \<and> cacheRestored sys \<and> list_ex consumesSignals (running sys)
              \<and> (\<forall>now sig. serveSignal now sig sys \<noteq> None))"
    by blast
  from newManager_ok [OF nm] m have "authmap mgr = newAuthMapCache (AuthMap exampleParams)"
    by auto
  then have "fst (restoreCache (authmap mgr)) = None"
    by (simp add: restoreCache_def AuthMapStore_all_def newAuthMapCache_def exampleParams_def
        exampleStore_def)
  with good F0(1) obtain sys where
    st: "Lifecycle_Start (lifecycle (snd (newManager exampleRuntime exampleParams))) (initialSystem mgr) = (None, sys)"
    and cr: "cacheRestored sys" and sv: "list_ex consumesSignals (running sys)"
    by blast
  have "Lifecycle_Start (take (length (lifecycle (snd (newManager exampleRuntime exampleParams))))
          (lifecycle (snd (newManager exampleRuntime exampleParams)))) (initialSystem mgr) = (None, sys)"
    using st by simp
  with inv sv have "AuthMapCache_get exampleKey (authmap (sysManager sys))
      = store_get (AuthMap exampleParams) exampleKey"
    by blast
  with sg have g: "AuthMapCache_get exampleKey (authmap (sysManager sys)) = Some \<lparr>expiration = 50\<rparr>"
    by simp
  from restoreCache_before_signal_processing [OF nmF F(2)] obtain mgrF where
    mF: "manager (snd (newManager exampleRuntime ?pF)) = Some mgrF"
    and bad: "\<forall>e. fst (restoreCache (authmap mgrF)) = Some e \<longrightarrow>
           (\<exists>err sys. Lifecycle_Start (lifecycle (snd (newManager exampleRuntime ?pF))) (initialSystem mgrF)
                        = (Some err, sys)
              \<and> running sys = []
              \<and> (\<forall>now sig. serveSignal now sig sys = None)
              \<and> (list_all (\<lambda>h. h = Foreign None) (Lifecycle ?pF)
                   \<longrightarrow> err = Wrapped ''failed to restore auth map cache'' e))"
    by blast
  from newManager_ok [OF nmF] mF have "authmap mgrF = newAuthMapCache (AuthMap ?pF)"
    by auto
  then have "fst (restoreCache (authmap mgrF)) = Some (StoreError ''iteration failed'')"
    by (simp add: restoreCache_def AuthMapStore_all_def newAuthMapCache_def failingStore_def)
  with bad F0(2) obtain sysF where
    "Lifecycle_Start (lifecycle (snd (newManager exampleRuntime ?pF))) (initialSystem mgrF)
       = (Some (Wrapped ''failed to restore auth map cache'' (StoreError ''iteration failed'')), sysF)"
    "running sysF = []" "serveSignal 1000 exampleSignal sysF = None"
    by blast
  with ok F(1) m st cr sv g mF show ?thesis by blast
qed

end
